theory Spec2Isabelle
  imports Complex_Main
begin

section \<open>The population orchestrator of \<open>backend/app/scheduler.py\<close>\<close>

text \<open>
  The module keeps its state in module-level variables (\<open>_job_lock\<close>,
  \<open>_date_propagation_state\<close>, \<open>_ai_state\<close>, \<open>_last_ui_trigger_ts\<close>), in a DynamoDB
  table used for run tracking and in a JSON file of retry budgets.  The model threads one
  record holding all of them through every function.  External collaborators (the S3
  downloader, the DynamoDB manager, the AI stages, the clock) are read from an
  environment record; a collaborator that may raise returns an \<open>outcome\<close>.
  Time stamps of \<open>time.time()\<close> are real numbers of seconds.
\<close>

subsection \<open>Data model\<close>

type_synonym path = "string list"

record propagation_state =
  running :: bool
  noData :: bool

record coverage_counts =
  total :: int
  withPan :: int

record ai_state_rec =
  ai_running :: bool
  completedAt :: "string option"
  lastError :: "string option"
  coverage :: coverage_counts

text \<open>A wall-clock reading in the business time zone: the date as \<open>YYYY-MM-DD\<close> and the
  time of day.\<close>

record pst_time =
  t_date :: string
  t_hour :: nat
  t_minute :: nat
  t_second :: nat
  t_microsecond :: nat

text \<open>An item of the run-tracking partition.  \<open>RestaurantDate\<close> is
  \<open>RUN_TRACKING#<date>\<close> and \<open>RunID\<close> starts with the four digits \<open>HHMM\<close> of the run
  time; the model keeps the date and the hour and minute.\<close>

record run_record =
  rr_date :: string
  rr_hour :: nat
  rr_minute :: nat
  RunType :: string
  Status :: string

text \<open>An entry of \<open>.ai_retry_state.json\<close>; every key of the entry may be absent.\<close>

record retry_entry =
  day :: "string option"
  attempts :: "int option"
  last_ts :: "real option"

datatype event =
    EvInvoked
  | EvSkipLocked
  | EvSetProp string "bool option" "bool option"
  | EvDownload "string option"
  | EvExtract
  | EvEnrich path
  | EvIngest path
  | EvVerifyCounts
  | EvVerifySample
  | EvRecordRun string nat nat
  | EvEvaluate path
  | EvRetry path
  | EvReingest path
  | EvScan nat
  | EvDebounced
  | EvJobFailed

record scheduler_state =
  job_lock :: bool
  date_propagation_state :: "string \<rightharpoonup> propagation_state"
  ai_state :: "string \<rightharpoonup> ai_state_rec"
  last_ui_trigger_ts :: real
  run_tracking :: "run_record list"
  ai_retry_state :: "path \<rightharpoonup> retry_entry"
  trace :: "event list"

definition log_event :: "event list \<Rightarrow> scheduler_state \<Rightarrow> scheduler_state" where
  "log_event evs s = s\<lparr>trace := trace s @ evs\<rparr>"

text \<open>The module as it is right after import.\<close>

definition initial_state :: scheduler_state where
  "initial_state =
     \<lparr>job_lock = False, date_propagation_state = Map.empty, ai_state = Map.empty,
      last_ui_trigger_ts = 0, run_tracking = [], ai_retry_state = Map.empty, trace = []\<rparr>"

subsection \<open>Per-date state store\<close>

definition default_propagation_state :: propagation_state where
  "default_propagation_state = \<lparr>running = False, noData = False\<rparr>"

definition default_ai_state :: ai_state_rec where
  "default_ai_state =
     \<lparr>ai_running = False, completedAt = None, lastError = None,
      coverage = \<lparr>total = 0, withPan = 0\<rparr>\<rparr>"

text \<open>\<open>key = date_str or "latest"\<close>: \<open>None\<close> and the empty string both give
  \<open>"latest"\<close>.\<close>

definition propagation_key :: "string option \<Rightarrow> string" where
  "propagation_key date_str =
     (case date_str of None \<Rightarrow> ''latest'' | Some d \<Rightarrow> if d = [] then ''latest'' else d)"

text \<open>\<open>get_propagation_state\<close> is \<open>dict.get\<close> with a default: it returns a value and
  performs no store.  The model returns the value together with the state after the call.\<close>

definition get_propagation_state ::
  "string option \<Rightarrow> scheduler_state \<Rightarrow> propagation_state \<times> scheduler_state" where
  "get_propagation_state date_str s =
     (case date_propagation_state s (propagation_key date_str) of
        None \<Rightarrow> (default_propagation_state, s)
      | Some st \<Rightarrow> (st, s))"

definition set_propagation_state ::
  "string option \<Rightarrow> bool option \<Rightarrow> bool option \<Rightarrow> scheduler_state \<Rightarrow> scheduler_state" where
  "set_propagation_state date_str running_arg noData_arg s =
     (let key = propagation_key date_str;
          state0 = (case date_propagation_state s key of
                      None \<Rightarrow> default_propagation_state | Some st \<Rightarrow> st);
          state1 = (case running_arg of None \<Rightarrow> state0 | Some r \<Rightarrow> state0\<lparr>running := r\<rparr>);
          state2 = (case noData_arg of None \<Rightarrow> state1 | Some n \<Rightarrow> state1\<lparr>noData := n\<rparr>)
      in s\<lparr>date_propagation_state := (date_propagation_state s)(key \<mapsto> state2),
           trace := trace s @ [EvSetProp key running_arg noData_arg]\<rparr>)"

text \<open>\<open>get_ai_state\<close> stores the default under the key when the key is absent.\<close>

definition get_ai_state :: "string \<Rightarrow> scheduler_state \<Rightarrow> ai_state_rec \<times> scheduler_state" where
  "get_ai_state date_str s =
     (case ai_state s date_str of
        None \<Rightarrow> (default_ai_state, s\<lparr>ai_state := (ai_state s)(date_str \<mapsto> default_ai_state)\<rparr>)
      | Some st \<Rightarrow> (st, s))"

definition set_ai_state ::
  "string \<Rightarrow> bool option \<Rightarrow> string option \<Rightarrow> string option \<Rightarrow> scheduler_state
     \<Rightarrow> scheduler_state" where
  "set_ai_state date_str running_arg completedAt_arg lastError_arg s =
     (case get_ai_state date_str s of (state0, s1) \<Rightarrow>
        let state1 = (case running_arg of None \<Rightarrow> state0 | Some r \<Rightarrow> state0\<lparr>ai_running := r\<rparr>);
            state2 = (case completedAt_arg of None \<Rightarrow> state1
                      | Some c \<Rightarrow> state1\<lparr>completedAt := Some c\<rparr>);
            state3 = (case lastError_arg of None \<Rightarrow> state2
                      | Some err \<Rightarrow> state2\<lparr>lastError := Some err\<rparr>)
        in s1\<lparr>ai_state := (ai_state s1)(date_str \<mapsto> state3)\<rparr>)"

text \<open>A call of \<open>set_ai_state\<close> as data, and a sequence of calls run in order.\<close>

record set_ai_call =
  c_date :: string
  c_running :: "bool option"
  c_completedAt :: "string option"
  c_lastError :: "string option"

definition apply_set_ai :: "set_ai_call \<Rightarrow> scheduler_state \<Rightarrow> scheduler_state" where
  "apply_set_ai c s = set_ai_state (c_date c) (c_running c) (c_completedAt c) (c_lastError c) s"

fun run_set_ai_calls :: "set_ai_call list \<Rightarrow> scheduler_state \<Rightarrow> scheduler_state" where
  "run_set_ai_calls [] s = s"
| "run_set_ai_calls (c # cs) s = run_set_ai_calls cs (apply_set_ai c s)"

text \<open>The thread body \<open>_run_ai\<close> of the route \<open>/pan_ai/run\<close> (\<open>api/routes.py\<close>), as far
  as the AI state goes: the route sets \<open>running=True, lastError=""\<close>, the population runs
  (it never touches the AI state), then success stores \<open>completedAt\<close> and an exception
  stores \<open>lastError=str(e)\<close>.\<close>

definition pan_ai_run :: "string \<Rightarrow> string + string \<Rightarrow> scheduler_state \<Rightarrow> scheduler_state" where
  "pan_ai_run date result s =
     (let s1 = set_ai_state date (Some True) None (Some []) s
      in case result of
           Inr finished_at \<Rightarrow> set_ai_state date (Some False) (Some finished_at) None s1
         | Inl err \<Rightarrow> set_ai_state date (Some False) None (Some err) s1)"

subsection \<open>Collaborators\<close>

datatype 'a outcome = Raises | Returns 'a

text \<open>One page of a DynamoDB scan: whether \<open>Items\<close> is non-empty and whether
  \<open>LastEvaluatedKey\<close> is present.\<close>

datatype page = Page bool bool

text \<open>
  What the collaborators do during one call into the module.
  \<^item> \<open>setup_ok\<close>: \<open>_ensure_repo_root_on_path\<close>, the lazy imports and \<open>load_config\<close> succeed;
  \<^item> \<open>start_download\<close>: \<open>start_download_for_date(d)\<close> for \<open>Some d\<close>, \<open>start_download()\<close>
    for \<open>None\<close>, with the truth value of the result;
  \<^item> \<open>extract_ok\<close>, \<open>listing_ok\<close>: \<open>_extract_zip_files_in_dir\<close> and the debug listing of
    the directory return;
  \<^item> \<open>rglob_csv\<close>: the paths \<open>base_dir.rglob("*.csv")\<close> yields;
  \<^item> \<open>manager_ok\<close>: \<open>ScanDynamoManager()\<close> returns;
  \<^item> \<open>ai_imports_ok\<close>, \<open>yolov8\<close>, \<open>corner_analysis\<close>: the stages of the AI pipeline that
    decide which file is ingested;
  \<^item> \<open>now_pst\<close>: \<open>datetime.now\<close> in \<open>America/Los_Angeles\<close>;
  \<^item> \<open>config_ok\<close>: \<open>get_config\<close> and the table lookup succeed; \<open>put_item_ok\<close>,
    \<open>query_ok\<close>: the run-tracking table accepts the write, answers the query;
  \<^item> \<open>scan_recent\<close>: the scan of \<open>_has_recent_successful_run\<close> (whether it found items);
    \<open>scan_page\<close>: the pages of the scan of \<open>_is_today_populated\<close>;
  \<^item> \<open>retry_load_ok\<close>, \<open>retry_save_ok\<close>: the retry-state file can be read, written;
  \<^item> \<open>total_rows\<close>: \<open>pd.read_csv(p).shape[0]\<close>; \<open>missing_pan_rows\<close>: the result of
    \<open>_get_missing_pan_rows\<close> (which returns 0 instead of raising);
  \<^item> \<open>clock_check\<close>, \<open>clock_update\<close>: \<open>time.time()\<close> at the back-off test and at the
    state update for a file; \<open>retry_pipeline\<close>: the re-enrichment of a file, returning the
    file it re-ingests;
  \<^item> \<open>digit_char\<close>: the characters that Python's \<open>str.isdigit\<close> counts as digits (the
    Unicode table of the interpreter).
\<close>

record env =
  setup_ok :: bool
  start_download :: "string option \<Rightarrow> bool outcome"
  extract_ok :: bool
  listing_ok :: bool
  rglob_csv :: "path list outcome"
  manager_ok :: bool
  ai_imports_ok :: bool
  yolov8 :: "path \<Rightarrow> path outcome"
  corner_analysis :: "path \<Rightarrow> path outcome"
  now_pst :: pst_time
  config_ok :: bool
  put_item_ok :: bool
  query_ok :: bool
  scan_recent :: "bool outcome"
  scan_page :: "nat \<Rightarrow> page outcome"
  retry_load_ok :: bool
  retry_save_ok :: bool
  total_rows :: "path \<Rightarrow> int outcome"
  missing_pan_rows :: "path \<Rightarrow> int"
  clock_check :: "path \<Rightarrow> real"
  clock_update :: "path \<Rightarrow> real"
  retry_pipeline :: "path \<Rightarrow> path outcome"
  digit_char :: "char \<Rightarrow> bool"

subsection \<open>Paths and strings\<close>

fun starts_with :: "string \<Rightarrow> string \<Rightarrow> bool" where
  "starts_with [] s = True"
| "starts_with (p # ps) [] = False"
| "starts_with (p # ps) (c # cs) = (p = c \<and> starts_with ps cs)"

text \<open>\<open>sub in s\<close> on strings.\<close>

fun is_substring :: "string \<Rightarrow> string \<Rightarrow> bool" where
  "is_substring sub [] = (sub = [])"
| "is_substring sub (c # cs) = (starts_with sub (c # cs) \<or> is_substring sub cs)"

text \<open>\<open>s.split(sep)\<close> for a one-character separator.\<close>

fun split_on :: "char \<Rightarrow> string \<Rightarrow> string list" where
  "split_on sep [] = [[]]"
| "split_on sep (c # cs) =
     (if c = sep then [] # split_on sep cs
      else (case split_on sep cs of [] \<Rightarrow> [[c]] | w # ws \<Rightarrow> (c # w) # ws))"

text \<open>\<open>str.isdigit\<close>: the string has at least one character and all its characters are
  digits; which characters are digits is the interpreter's table \<open>dg\<close>.\<close>

definition isdigit :: "(char \<Rightarrow> bool) \<Rightarrow> string \<Rightarrow> bool" where
  "isdigit dg s = (s \<noteq> [] \<and> list_all dg s)"

text \<open>\<open>p.name\<close>: the last component.\<close>

definition path_name :: "path \<Rightarrow> string" where
  "path_name p = (case rev p of [] \<Rightarrow> [] | n # _ \<Rightarrow> n)"

text \<open>The list comprehension \<open>[p for p in base_dir.rglob("*.csv") if "Venue_Summaries" not
  in p.name]\<close>.\<close>

definition csv_candidates :: "path list \<Rightarrow> path list" where
  "csv_candidates found = filter (\<lambda>p. \<not> is_substring ''Venue_Summaries'' (path_name p)) found"

text \<open>The search for the restaurant id among the components of a CSV path.\<close>

fun extract_restaurant_id :: "(char \<Rightarrow> bool) \<Rightarrow> string list \<Rightarrow> string option" where
  "extract_restaurant_id dg [] = None"
| "extract_restaurant_id dg (part # rest) =
     (if isdigit dg part then Some part
      else if is_substring ''ScansToAudit'' part \<and> is_substring ''-'' part then
        (if length (split_on CHR ''-'' part) > 1 then
           (case find (isdigit dg) (split_on CHR ''-'' part) of
              Some p \<Rightarrow> Some p
            | None \<Rightarrow> extract_restaurant_id dg rest)
         else extract_restaurant_id dg rest)
      else extract_restaurant_id dg rest)"

subsection \<open>AI pipeline and ingestion\<close>

text \<open>\<open>_run_ai_pipeline_on_csv\<close> never raises: a failed import returns the raw CSV, a
  failed stage keeps the file of the stage before.\<close>

definition run_ai_pipeline_on_csv :: "env \<Rightarrow> path \<Rightarrow> path" where
  "run_ai_pipeline_on_csv e csv_path =
     (if \<not> ai_imports_ok e then csv_path
      else let enriched1 = (case yolov8 e csv_path of Raises \<Rightarrow> csv_path | Returns p \<Rightarrow> p);
               enriched2 = (case corner_analysis e enriched1 of
                              Raises \<Rightarrow> enriched1 | Returns p \<Rightarrow> p)
           in enriched2)"

text \<open>One round of the ingestion loop.  Its \<open>try\<close> block catches every exception, and the
  counters \<open>total_processed\<close> and \<open>total_skipped\<close> are only logged, so the round is the
  list of calls it makes: the AI pipeline (when enabled) and \<open>manager.populate_csv\<close>.\<close>

definition ingest_one :: "env \<Rightarrow> bool \<Rightarrow> path \<Rightarrow> event list" where
  "ingest_one e run_ai csv_file =
     (case extract_restaurant_id (digit_char e) csv_file of
        None \<Rightarrow> []
      | Some restaurant_id \<Rightarrow>
          if run_ai then [EvEnrich csv_file, EvIngest (run_ai_pipeline_on_csv e csv_file)]
          else [EvIngest csv_file])"

fun ingest_csvs :: "env \<Rightarrow> bool \<Rightarrow> path list \<Rightarrow> event list" where
  "ingest_csvs e run_ai [] = []"
| "ingest_csvs e run_ai (csv_file # rest) = ingest_one e run_ai csv_file @ ingest_csvs e run_ai rest"

subsection \<open>Run ledger\<close>

text \<open>The \<open>Timestamp\<close> of a run record is \<open>datetime.now(timezone.utc).isoformat()\<close>.
  The module imports \<open>timezone\<close> from \<open>pytz\<close>, where it is a function and has no attribute
  \<open>utc\<close>: evaluating the expression raises \<open>AttributeError\<close>.\<close>

definition utc_timestamp :: "string outcome" where
  "utc_timestamp = Raises"

text \<open>\<open>_record_successful_run\<close>: inside one \<open>try\<close> block it reads the configuration and
  the table, builds the item and calls \<open>put_item\<close>; the \<open>except\<close> clause logs any
  exception.  Building the item evaluates the time stamp above.\<close>

definition record_successful_run ::
  "env \<Rightarrow> pst_time \<Rightarrow> string \<Rightarrow> scheduler_state \<Rightarrow> scheduler_state" where
  "record_successful_run e run_time run_type s =
     (let s1 = log_event [EvRecordRun run_type (t_hour run_time) (t_minute run_time)] s
      in if \<not> config_ok e then s1
         else case utc_timestamp of
                Raises \<Rightarrow> s1
              | Returns stamp \<Rightarrow>
                  if put_item_ok e then
                    s1\<lparr>run_tracking := run_tracking s1 @
                         [\<lparr>rr_date = t_date run_time, rr_hour = t_hour run_time,
                           rr_minute = t_minute run_time, RunType = run_type,
                           Status = ''completed''\<rparr>]\<rparr>
                  else s1)"

subsection \<open>Smart retry\<close>

type_synonym retry_map = "path \<rightharpoonup> retry_entry"

text \<open>The ratio \<open>missing / total_rows\<close> is taken over the reals; for files of fewer than
  \<open>10^15\<close> rows the floating-point test against \<open>0.10\<close> decides the same.\<close>

definition missing_ratio :: "int \<Rightarrow> int \<Rightarrow> real" where
  "missing_ratio missing rows =
     (if rows > 0 then real_of_int missing / real_of_int rows else 0)"

text \<open>One round of the loop of \<open>_smart_retry_for_missing\<close> on the in-memory dictionary
  \<open>state\<close>: the dictionary after the round when the round stored an entry, and the calls
  made.\<close>

definition smart_retry_step ::
  "env \<Rightarrow> string \<Rightarrow> path \<Rightarrow> retry_map \<Rightarrow> retry_map option \<times> event list" where
  "smart_retry_step e today_key csv_path state =
     (let rows = (case total_rows e csv_path of Raises \<Rightarrow> 0 | Returns n \<Rightarrow> n);
          missing = missing_pan_rows e csv_path
      in if missing < 10 \<and> missing_ratio missing rows < 1 / 10 then (None, [EvEvaluate csv_path])
         else
           let last_day = (case state csv_path of None \<Rightarrow> None | Some en \<Rightarrow> day en);
               attempts0 = (case state csv_path of None \<Rightarrow> 0
                            | Some en \<Rightarrow> (case attempts en of None \<Rightarrow> 0 | Some a \<Rightarrow> a));
               last_attempt = (case state csv_path of None \<Rightarrow> 0
                       | Some en \<Rightarrow> (case last_ts en of None \<Rightarrow> 0 | Some t \<Rightarrow> t));
               attempts1 = (if last_day \<noteq> Some today_key then 0 else attempts0)
           in if attempts1 \<ge> 2 then (None, [EvEvaluate csv_path])
              else if clock_check e csv_path - last_attempt < 30 * 60 then (None, [EvEvaluate csv_path])
              else (Some (state(csv_path \<mapsto>
                            \<lparr>day = Some today_key, attempts = Some (attempts1 + 1),
                             last_ts = Some (clock_update e csv_path)\<rparr>)),
                    [EvEvaluate csv_path, EvRetry csv_path] @
                    (case retry_pipeline e csv_path of
                       Raises \<Rightarrow> [] | Returns final_csv \<Rightarrow> [EvReingest final_csv])))"

text \<open>The loop threads the dictionary and the contents of the file; \<open>_save_retry_state\<close>
  writes the whole dictionary and leaves the file alone when it fails.\<close>

fun smart_retry_loop ::
  "env \<Rightarrow> string \<Rightarrow> path list \<Rightarrow> retry_map \<Rightarrow> retry_map \<Rightarrow> (retry_map \<times> retry_map) \<times> event list" where
  "smart_retry_loop e today_key [] state file = ((state, file), [])"
| "smart_retry_loop e today_key (csv_path # rest) state file =
     (case smart_retry_step e today_key csv_path state of
        (None, evs) \<Rightarrow>
          (case smart_retry_loop e today_key rest state file of
             (r, evs') \<Rightarrow> (r, evs @ evs'))
      | (Some state', evs) \<Rightarrow>
          (case smart_retry_loop e today_key rest state'
                  (if retry_save_ok e then state' else file) of
             (r, evs') \<Rightarrow> (r, evs @ evs')))"

definition load_retry_state :: "env \<Rightarrow> scheduler_state \<Rightarrow> retry_map" where
  "load_retry_state e s = (if retry_load_ok e then ai_retry_state s else Map.empty)"

text \<open>The calls one pass of \<open>_smart_retry_for_missing\<close> makes, given the contents of the
  retry-state file.\<close>

definition retry_events :: "env \<Rightarrow> path list \<Rightarrow> retry_map \<Rightarrow> event list" where
  "retry_events e csv_files file =
     snd (smart_retry_loop e (t_date (now_pst e)) csv_files
            (if retry_load_ok e then file else Map.empty) file)"

definition smart_retry_for_missing :: "env \<Rightarrow> path list \<Rightarrow> scheduler_state \<Rightarrow> scheduler_state" where
  "smart_retry_for_missing e csv_files s =
     (case smart_retry_loop e (t_date (now_pst e)) csv_files
             (load_retry_state e s) (ai_retry_state s) of
        ((state, file), evs) \<Rightarrow> s\<lparr>ai_retry_state := file, trace := trace s @ evs\<rparr>)"


subsection \<open>Population\<close>

datatype error = SetupError | DownloadError | ExtractError | ListingError | ManagerError

datatype run_end = Skipped | EndedNoData | EndedCompleted | EndedFailed error

text \<open>\<open>if date_str:\<close> chooses the download: a non-empty date calls
  \<open>start_download_for_date\<close>, \<open>None\<close> and the empty string call \<open>start_download\<close>.\<close>

definition download_arg :: "string option \<Rightarrow> string option" where
  "download_arg date_str =
     (case date_str of None \<Rightarrow> None | Some d \<Rightarrow> if d = [] then None else Some d)"

text \<open>The body of the \<open>try\<close> block of \<open>populate_audits_for_date\<close>: \<open>Inl\<close> is an exception,
  \<open>Inr\<close> a return, each with the state reached.\<close>

definition populate_body ::
  "env \<Rightarrow> string option \<Rightarrow> bool \<Rightarrow> scheduler_state \<Rightarrow> (error + run_end) \<times> scheduler_state" where
  "populate_body e date_str run_ai s =
     (if \<not> setup_ok e then (Inl SetupError, s)
      else
        let s1 = set_propagation_state date_str (Some True) None s;
            s2 = log_event [EvDownload (download_arg date_str)] s1
        in case start_download e (download_arg date_str) of
             Raises \<Rightarrow> (Inl DownloadError, s2)
           | Returns downloaded \<Rightarrow>
               if \<not> downloaded then
                 (Inr EndedNoData, set_propagation_state date_str (Some False) (Some True) s2)
               else
                 let s3 = log_event [EvExtract] s2
                 in if \<not> extract_ok e then (Inl ExtractError, s3)
                    else if \<not> listing_ok e then (Inl ListingError, s3)
                    else case rglob_csv e of
                           Raises \<Rightarrow> (Inl ListingError, s3)
                         | Returns found \<Rightarrow>
                             let csv_files = csv_candidates found
                             in if csv_files = [] then
                                  (Inr EndedNoData,
                                   set_propagation_state date_str (Some False) (Some True) s3)
                                else if \<not> manager_ok e then (Inl ManagerError, s3)
                                else
                                  let s4 = log_event (ingest_csvs e run_ai csv_files
                                             @ [EvVerifyCounts, EvVerifySample, EvVerifySample]) s3;
                                      s5 = record_successful_run e (now_pst e) ''scheduled'' s4;
                                      s6 = (if run_ai then smart_retry_for_missing e csv_files s5
                                            else s5)
                                  in (Inr EndedCompleted,
                                      set_propagation_state date_str (Some False) (Some False) s6))"

text \<open>\<open>populate_run\<close> is \<open>populate_audits_for_date\<close> together with the way the call ended
  (the Python function returns \<open>None\<close> in every case).  The trace notes every entry into
  the function.\<close>

definition populate_run ::
  "env \<Rightarrow> string option \<Rightarrow> bool \<Rightarrow> scheduler_state \<Rightarrow> run_end \<times> scheduler_state" where
  "populate_run e date_str run_ai s =
     (let s0 = log_event [EvInvoked] s
      in if job_lock s0 then (Skipped, log_event [EvSkipLocked] s0)
         else case populate_body e date_str run_ai (s0\<lparr>job_lock := True\<rparr>) of
                (Inl err, s1) \<Rightarrow>
                  (EndedFailed err,
                   (set_propagation_state date_str (Some False) None
                      (log_event [EvJobFailed] s1))\<lparr>job_lock := False\<rparr>)
              | (Inr fin, s1) \<Rightarrow> (fin, s1\<lparr>job_lock := False\<rparr>))"

definition populate_audits_for_date ::
  "env \<Rightarrow> string option \<Rightarrow> bool \<Rightarrow> scheduler_state \<Rightarrow> scheduler_state" where
  "populate_audits_for_date e date_str run_ai s = snd (populate_run e date_str run_ai s)"

definition populate_today_audits :: "env \<Rightarrow> scheduler_state \<Rightarrow> scheduler_state" where
  "populate_today_audits e s = populate_audits_for_date e None True s"

text \<open>The events a call appended to the trace.\<close>

definition new_events :: "scheduler_state \<Rightarrow> scheduler_state \<Rightarrow> event list" where
  "new_events s s' = drop (length (trace s)) (trace s')"

subsection \<open>Status checks and catch-up\<close>



definition has_recent_successful_run :: "env \<Rightarrow> bool" where
  "has_recent_successful_run e =
     (if \<not> config_ok e then True
      else case scan_recent e of Raises \<Rightarrow> True | Returns found \<Rightarrow> found)"

record run_status =
  status :: string
  run_type :: "string option"

text \<open>The query \<open>RestaurantDate = RUN_TRACKING#<date>\<close> with the filter
  \<open>begins_with(RunID, HHMM)\<close>, on hours below 24 and minutes below 60.\<close>

definition matching_runs :: "string \<Rightarrow> nat \<Rightarrow> nat \<Rightarrow> run_record list \<Rightarrow> run_record list" where
  "matching_runs date_str expected_hour expected_minute items =
     filter (\<lambda>r. rr_date r = date_str \<and> rr_hour r = expected_hour
                 \<and> rr_minute r = expected_minute) items"

definition check_run_status ::
  "env \<Rightarrow> string \<Rightarrow> nat \<Rightarrow> nat \<Rightarrow> scheduler_state \<Rightarrow> run_status" where
  "check_run_status e date_str expected_hour expected_minute s =
     (if config_ok e \<and> query_ok e then
        (case find (\<lambda>item. Status item = ''completed'')
                (matching_runs date_str expected_hour expected_minute (run_tracking s)) of
           Some item \<Rightarrow> \<lparr>status = ''completed'', run_type = Some (RunType item)\<rparr>
         | None \<Rightarrow>
             if has_recent_successful_run e then
               \<lparr>status = ''completed'', run_type = Some ''inferred_from_data''\<rparr>
             else \<lparr>status = ''not_found'', run_type = None\<rparr>)
      else if has_recent_successful_run e then
        \<lparr>status = ''completed'', run_type = Some ''inferred_from_data''\<rparr>
      else \<lparr>status = ''error'', run_type = None\<rparr>)"

definition expected_runs :: "(nat \<times> nat) list" where
  "expected_runs = [(16, 0), (20, 0)]"

text \<open>\<open>now > now.replace(hour=h, minute=m, second=0, microsecond=0)\<close>.\<close>

definition past_slot :: "pst_time \<Rightarrow> nat \<times> nat \<Rightarrow> bool" where
  "past_slot now slot =
     (t_hour now > fst slot \<or>
      (t_hour now = fst slot \<and>
        (t_minute now > snd slot \<or>
         (t_minute now = snd slot \<and> (t_second now > 0 \<or> t_microsecond now > 0)))))"

definition slot_time :: "pst_time \<Rightarrow> nat \<times> nat \<Rightarrow> pst_time" where
  "slot_time now slot =
     now\<lparr>t_hour := fst slot, t_minute := snd slot, t_second := 0, t_microsecond := 0\<rparr>"

definition missed_runs :: "env \<Rightarrow> pst_time \<Rightarrow> scheduler_state \<Rightarrow> (nat \<times> nat) list" where
  "missed_runs e now s =
     filter (\<lambda>slot. past_slot now slot \<and>
                    status (check_run_status e (t_date now) (fst slot) (snd slot) s)
                      \<noteq> ''completed'')
       expected_runs"

text \<open>The loop \<open>for hour, minute in missed_runs\<close>, shared by the detector (run type
  \<open>catchup\<close>) and the manual trigger (\<open>manual_catchup\<close>): each round awaits
  \<open>populate_today_audits\<close> and then records the slot.\<close>

fun catch_up_loop ::
  "env \<Rightarrow> string \<Rightarrow> pst_time \<Rightarrow> (nat \<times> nat) list \<Rightarrow> scheduler_state \<Rightarrow> scheduler_state" where
  "catch_up_loop e catchup_type now [] s = s"
| "catch_up_loop e catchup_type now (slot # rest) s =
     catch_up_loop e catchup_type now rest
       (record_successful_run e (slot_time now slot) catchup_type (populate_today_audits e s))"

definition check_and_catch_up_missed_runs :: "env \<Rightarrow> scheduler_state \<Rightarrow> scheduler_state" where
  "check_and_catch_up_missed_runs e s =
     (let now = now_pst e; missed = missed_runs e now s
      in if missed \<noteq> [] then catch_up_loop e ''catchup'' now missed s else s)"

text \<open>\<open>manual_catch_up_runs\<close> returns \<open>caught_up_runs\<close> and \<open>total_missed\<close>.\<close>

definition manual_catch_up_runs ::
  "env \<Rightarrow> scheduler_state \<Rightarrow> ((nat \<times> nat) list \<times> nat) \<times> scheduler_state" where
  "manual_catch_up_runs e s =
     (let now = now_pst e; missed = missed_runs e now s
      in if missed \<noteq> [] then
           ((missed, length missed), catch_up_loop e ''manual_catchup'' now missed s)
         else (([], 0), s))"


subsection \<open>Reading the trace and the stores\<close>

definition count_invoked :: "event list \<Rightarrow> nat" where
  "count_invoked evs = length (filter (\<lambda>ev. ev = EvInvoked) evs)"

fun is_download :: "event \<Rightarrow> bool" where
  "is_download (EvDownload a) = True"
| "is_download ev = False"

fun is_scan :: "event \<Rightarrow> bool" where
  "is_scan (EvScan n) = True"
| "is_scan ev = False"


text \<open>Ingestion and verification calls; calls of the smart retry pass.\<close>

fun is_ingest_event :: "event \<Rightarrow> bool" where
  "is_ingest_event (EvEnrich p) = True"
| "is_ingest_event (EvIngest p) = True"
| "is_ingest_event EvVerifyCounts = True"
| "is_ingest_event EvVerifySample = True"
| "is_ingest_event ev = False"

fun is_retry_event :: "event \<Rightarrow> bool" where
  "is_retry_event (EvEvaluate p) = True"
| "is_retry_event (EvRetry p) = True"
| "is_retry_event (EvReingest p) = True"
| "is_retry_event ev = False"

fun prop_write :: "string \<Rightarrow> event \<Rightarrow> (bool option \<times> bool option) list" where
  "prop_write key (EvSetProp k r n) = (if k = key then [(r, n)] else [])"
| "prop_write key ev = []"

text \<open>The arguments of the calls of \<open>set_propagation_state\<close> for a key, in order.\<close>

definition prop_writes :: "string \<Rightarrow> event list \<Rightarrow> (bool option \<times> bool option) list" where
  "prop_writes key evs = concat (map (prop_write key) evs)"

fun recorded_slot :: "string \<Rightarrow> event \<Rightarrow> (nat \<times> nat) list" where
  "recorded_slot ty (EvRecordRun t h m) = (if t = ty then [(h, m)] else [])"
| "recorded_slot ty ev = []"

text \<open>The slots for which a run of the given type was recorded, in order.\<close>

definition recorded_slots :: "string \<Rightarrow> event list \<Rightarrow> (nat \<times> nat) list" where
  "recorded_slots ty evs = concat (map (recorded_slot ty) evs)"

text \<open>The last call of an invocation of \<open>populate_audits_for_date\<close>: the log line of a
  skipped call, or the write that clears \<open>running\<close>.\<close>

fun is_run_end :: "event \<Rightarrow> bool" where
  "is_run_end EvSkipLocked = True"
| "is_run_end (EvSetProp k r n) = (r = Some False)"
| "is_run_end ev = False"

text \<open>The calls of one whole invocation, as seen by a loop that records runs of type
  \<open>ty\<close>: they start with the entry into the function, contain no second entry, end with
  the end of the run and record no run of type \<open>ty\<close>.\<close>

definition is_invocation :: "string \<Rightarrow> event list \<Rightarrow> bool" where
  "is_invocation ty evs =
     (case evs of
        [] \<Rightarrow> False
      | ev # rest \<Rightarrow> ev = EvInvoked \<and> rest \<noteq> [] \<and> count_invoked rest = 0 \<and>
                    is_run_end (last rest) \<and> recorded_slots ty rest = [])"

text \<open>The calls of a catch-up over the slots, given the calls of each population: every
  population is followed by the recording of its slot.\<close>

definition catch_up_rounds ::
  "string \<Rightarrow> (nat \<times> nat) list \<Rightarrow> event list list \<Rightarrow> event list" where
  "catch_up_rounds ty slots blocks =
     concat (map (\<lambda>(slot, evs). evs @ [EvRecordRun ty (fst slot) (snd slot)])
              (zip slots blocks))"

definition completedAt_of :: "scheduler_state \<Rightarrow> string \<Rightarrow> string option" where
  "completedAt_of s k = (case ai_state s k of None \<Rightarrow> None | Some st \<Rightarrow> completedAt st)"

definition lastError_of :: "scheduler_state \<Rightarrow> string \<Rightarrow> string option" where
  "lastError_of s k = (case ai_state s k of None \<Rightarrow> None | Some st \<Rightarrow> lastError st)"

subsection \<open>The retry rule in the words of the specification\<close>





subsection \<open>A concrete day\<close>

text \<open>An evening on which every collaborator answers: one CSV of restaurant 169 with 50 of
  100 rows missing a guess, no scan data found by the status probes, the clock at
  21:00:00.000001.\<close>

definition example_csv :: path where
  "example_csv = [''audits'', ''169'', ''scan'', ''a.csv'']"

definition example_env :: env where
  "example_env =
     \<lparr>setup_ok = True, start_download = (\<lambda>a. Returns True), extract_ok = True,
      listing_ok = True, rglob_csv = Returns [example_csv], manager_ok = True,
      ai_imports_ok = True, yolov8 = (\<lambda>p. Returns p), corner_analysis = (\<lambda>p. Returns p),
      now_pst = \<lparr>t_date = ''2025-07-27'', t_hour = 21, t_minute = 0, t_second = 0,
                 t_microsecond = 1\<rparr>,
      config_ok = True, put_item_ok = True, query_ok = True, scan_recent = Returns False,
      scan_page = (\<lambda>i. Returns (Page False False)), retry_load_ok = True,
      retry_save_ok = True, total_rows = (\<lambda>p. Returns 100), missing_pan_rows = (\<lambda>p. 50),
      clock_check = (\<lambda>p. 1753675200), clock_update = (\<lambda>p. 1753675260),
      retry_pipeline = (\<lambda>p. Returns p), digit_char = (\<lambda>c. c \<in> set ''0123456789'')\<rparr>"

text \<open>The same evening with no files in S3, with a run-tracking table whose query raises,
  with a scan-data table whose scans raise, with a configuration that cannot be loaded, and
  with a download that raises.\<close>

definition broken_setup_env :: env where
  "broken_setup_env = example_env\<lparr>setup_ok := False\<rparr>"

definition failing_download_env :: env where
  "failing_download_env = example_env\<lparr>start_download := (\<lambda>a. Raises)\<rparr>"

definition no_data_env :: env where
  "no_data_env = example_env\<lparr>start_download := (\<lambda>a. Returns False)\<rparr>"




section \<open>Properties\<close>

subsection \<open>Fields and traces\<close>

lemma populate_skips_when_locked:
  "job_lock s \<Longrightarrow>
   populate_run e date_str run_ai s = (Skipped, log_event [EvInvoked, EvSkipLocked] s)"
  by (simp add: populate_run_def log_event_def Let_def)

lemma set_propagation_state_fields [simp]:
  "trace (set_propagation_state d r n s) = trace s @ [EvSetProp (propagation_key d) r n]"
  "job_lock (set_propagation_state d r n s) = job_lock s"
  "run_tracking (set_propagation_state d r n s) = run_tracking s"
  "ai_retry_state (set_propagation_state d r n s) = ai_retry_state s"
  "last_ui_trigger_ts (set_propagation_state d r n s) = last_ui_trigger_ts s"
  "ai_state (set_propagation_state d r n s) = ai_state s"
  by (simp_all add: set_propagation_state_def Let_def)

lemma smart_retry_for_missing_fields [simp]:
  "trace (smart_retry_for_missing e c s) = trace s @ retry_events e c (ai_retry_state s)"
  "job_lock (smart_retry_for_missing e c s) = job_lock s"
  "date_propagation_state (smart_retry_for_missing e c s) = date_propagation_state s"
  "run_tracking (smart_retry_for_missing e c s) = run_tracking s"
  "last_ui_trigger_ts (smart_retry_for_missing e c s) = last_ui_trigger_ts s"
  "ai_state (smart_retry_for_missing e c s) = ai_state s"
  by (simp_all add: smart_retry_for_missing_def retry_events_def load_retry_state_def
        split: prod.splits)

lemma record_successful_run_fields [simp]:
  "trace (record_successful_run e t ty s) = trace s @ [EvRecordRun ty (t_hour t) (t_minute t)]"
  "job_lock (record_successful_run e t ty s) = job_lock s"
  "date_propagation_state (record_successful_run e t ty s) = date_propagation_state s"
  "ai_retry_state (record_successful_run e t ty s) = ai_retry_state s"
  "last_ui_trigger_ts (record_successful_run e t ty s) = last_ui_trigger_ts s"
  "ai_state (record_successful_run e t ty s) = ai_state s"
  "run_tracking (record_successful_run e t ty s) = run_tracking s"
  by (simp_all add: record_successful_run_def utc_timestamp_def log_event_def Let_def)

lemma smart_retry_step_events:
  "smart_retry_step e t p st = (r, evs) \<Longrightarrow> ev \<in> set evs \<Longrightarrow> is_retry_event ev"
  by (auto simp: smart_retry_step_def Let_def split: if_splits outcome.splits)

lemma smart_retry_loop_events:
  "smart_retry_loop e t ps st f = (r, evs) \<Longrightarrow> ev \<in> set evs \<Longrightarrow> is_retry_event ev"
proof (induction ps arbitrary: st f r evs)
  case Nil
  then show ?case by simp
next
  case (Cons p ps)
  obtain r1 evs1 where step: "smart_retry_step e t p st = (r1, evs1)"
    by (cases "smart_retry_step e t p st")
  show ?case
  proof (cases r1)
    case None
    obtain r2 evs2 where rest: "smart_retry_loop e t ps st f = (r2, evs2)"
      by (cases "smart_retry_loop e t ps st f")
    with Cons.prems step None have "evs = evs1 @ evs2" by simp
    with Cons.prems(2) have "ev \<in> set evs1 \<or> ev \<in> set evs2" by simp
    then show ?thesis using smart_retry_step_events[OF step] Cons.IH[OF rest] by blast
  next
    case (Some st')
    obtain r2 evs2 where rest:
      "smart_retry_loop e t ps st' (if retry_save_ok e then st' else f) = (r2, evs2)"
      by (cases "smart_retry_loop e t ps st' (if retry_save_ok e then st' else f)")
    with Cons.prems step Some have "evs = evs1 @ evs2" by simp
    with Cons.prems(2) have "ev \<in> set evs1 \<or> ev \<in> set evs2" by simp
    then show ?thesis using smart_retry_step_events[OF step] Cons.IH[OF rest] by blast
  qed
qed

lemma retry_events_are_retry: "ev \<in> set (retry_events e c f) \<Longrightarrow> is_retry_event ev"
  unfolding retry_events_def
  using smart_retry_loop_events[OF prod.collapse[symmetric]] by blast

lemma retry_event_no_prop_write: "is_retry_event ev \<Longrightarrow> prop_write key ev = []"
  by (cases ev) simp_all

lemma prop_writes_retry_events [simp]: "prop_writes key (retry_events e c f) = []"
  by (auto simp: prop_writes_def dest!: retry_events_are_retry intro: retry_event_no_prop_write)

lemma prop_writes_ingest_csvs [simp]: "prop_writes key (ingest_csvs e ai cs) = []"
  by (induction cs) (auto simp: prop_writes_def ingest_one_def split: option.splits)

lemma prop_writes_append [simp]:
  "prop_writes key (xs @ ys) = prop_writes key xs @ prop_writes key ys"
  by (simp add: prop_writes_def)

lemma prop_writes_Cons [simp]:
  "prop_writes key (ev # evs) = prop_write key ev @ prop_writes key evs"
  "prop_writes key [] = []"
  by (simp_all add: prop_writes_def)

lemma new_events_append [simp]: "trace s' = trace s @ evs \<Longrightarrow> new_events s s' = evs"
  by (simp add: new_events_def)

lemma set_ai_state_completedAt:
  "completedAt_of s k \<noteq> None \<Longrightarrow> completedAt_of (set_ai_state d r c l s) k \<noteq> None"
  by (auto simp: completedAt_of_def set_ai_state_def get_ai_state_def Let_def
        split: option.splits)

lemma set_ai_state_lastError:
  "lastError_of s k \<noteq> None \<Longrightarrow> lastError_of (set_ai_state d r c l s) k \<noteq> None"
  by (auto simp: lastError_of_def set_ai_state_def get_ai_state_def Let_def
        split: option.splits)

lemma set_ai_state_lastError_omitted:
  "lastError_of (set_ai_state d r c None s) k = lastError_of s k"
  by (auto simp: lastError_of_def set_ai_state_def get_ai_state_def Let_def default_ai_state_def
        split: option.splits)

lemma run_set_ai_calls_completedAt:
  "completedAt_of s k \<noteq> None \<Longrightarrow> completedAt_of (run_set_ai_calls cs s) k \<noteq> None"
proof (induction cs arbitrary: s)
  case Nil
  then show ?case by simp
next
  case (Cons c cs)
  from Cons.prems have "completedAt_of (apply_set_ai c s) k \<noteq> None"
    unfolding apply_set_ai_def by (rule set_ai_state_completedAt)
  from Cons.IH[OF this] show ?case by simp
qed

lemma run_set_ai_calls_lastError:
  "lastError_of s k \<noteq> None \<Longrightarrow> lastError_of (run_set_ai_calls cs s) k \<noteq> None"
proof (induction cs arbitrary: s)
  case Nil
  then show ?case by simp
next
  case (Cons c cs)
  from Cons.prems have "lastError_of (apply_set_ai c s) k \<noteq> None"
    unfolding apply_set_ai_def by (rule set_ai_state_lastError)
  from Cons.IH[OF this] show ?case by simp
qed

lemma retry_event_not_ingest: "is_retry_event ev \<Longrightarrow> \<not> is_ingest_event ev"
  by (cases ev) simp_all

lemma retry_event_not_scan: "is_retry_event ev \<Longrightarrow> \<not> is_scan ev"
  by (cases ev) simp_all

lemma retry_event_not_invoked: "is_retry_event ev \<Longrightarrow> ev \<noteq> EvInvoked"
  by (cases ev) simp_all

lemma retry_event_no_recorded_slot: "is_retry_event ev \<Longrightarrow> recorded_slot ty ev = []"
  by (cases ev) simp_all

lemma ingest_csvs_events:
  "ev \<in> set (ingest_csvs e ai cs) \<Longrightarrow> is_ingest_event ev \<and> \<not> is_retry_event ev"
  by (induction cs) (auto simp: ingest_one_def split: option.splits if_splits)

lemma ingest_event_not_invoked: "is_ingest_event ev \<Longrightarrow> ev \<noteq> EvInvoked"
  by (cases ev) simp_all

lemma ingest_event_no_recorded_slot: "is_ingest_event ev \<Longrightarrow> recorded_slot ty ev = []"
  by (cases ev) simp_all

lemma filter_scan_retry_events [simp]: "filter is_scan (retry_events e c f) = []"
  by (auto simp: filter_empty_conv dest!: retry_events_are_retry retry_event_not_scan)

lemma count_invoked_retry_events [simp]: "count_invoked (retry_events e c f) = 0"
  by (auto simp: count_invoked_def filter_empty_conv dest!: retry_events_are_retry
        retry_event_not_invoked)

lemma count_invoked_ingest_csvs [simp]: "count_invoked (ingest_csvs e ai cs) = 0"
  by (auto simp: count_invoked_def filter_empty_conv dest!: ingest_csvs_events
        ingest_event_not_invoked)

lemma recorded_slots_retry_events [simp]: "recorded_slots ty (retry_events e c f) = []"
  by (auto simp: recorded_slots_def dest!: retry_events_are_retry
        intro: retry_event_no_recorded_slot)

lemma recorded_slots_ingest_csvs [simp]: "recorded_slots ty (ingest_csvs e ai cs) = []"
  by (auto simp: recorded_slots_def dest!: ingest_csvs_events
        intro: ingest_event_no_recorded_slot)

lemma count_invoked_simps [simp]:
  "count_invoked (xs @ ys) = count_invoked xs + count_invoked ys"
  "count_invoked (ev # evs) = (if ev = EvInvoked then 1 else 0) + count_invoked evs"
  "count_invoked [] = 0"
  by (simp_all add: count_invoked_def)

lemma recorded_slots_simps [simp]:
  "recorded_slots ty (xs @ ys) = recorded_slots ty xs @ recorded_slots ty ys"
  "recorded_slots ty (ev # evs) = recorded_slot ty ev @ recorded_slots ty evs"
  "recorded_slots ty [] = []"
  by (simp_all add: recorded_slots_def)




lemma smart_retry_loop_Cons:
  "snd (smart_retry_loop e t (p # ps) st f) =
     snd (smart_retry_step e t p st) @
     snd (smart_retry_loop e t ps
            (case fst (smart_retry_step e t p st) of None \<Rightarrow> st | Some st' \<Rightarrow> st')
            (case fst (smart_retry_step e t p st) of None \<Rightarrow> f
             | Some st' \<Rightarrow> if retry_save_ok e then st' else f))"
  by (simp split: prod.splits option.splits)



lemma populate_trace:
  "\<exists>evs. trace (populate_audits_for_date e d ai s) = trace s @ evs \<and> count_invoked evs = 1 \<and>
         (ty \<noteq> ''scheduled'' \<longrightarrow> recorded_slots ty evs = [])"
  unfolding populate_audits_for_date_def populate_run_def populate_body_def
  by (auto simp: Let_def log_event_def split: if_splits outcome.splits)

lemma catch_up_loop_trace:
  "ty \<noteq> ''scheduled'' \<Longrightarrow>
   \<exists>evs. trace (catch_up_loop e ty now missed s) = trace s @ evs \<and>
         count_invoked evs = length missed \<and> recorded_slots ty evs = missed"
proof (induction missed arbitrary: s)
  case Nil
  then show ?case by simp
next
  case (Cons slot rest)
  obtain evs1 where e1: "trace (populate_today_audits e s) = trace s @ evs1"
      "count_invoked evs1 = 1" "recorded_slots ty evs1 = []"
    using populate_trace[of e None True s ty] Cons.prems
    unfolding populate_today_audits_def by blast
  let ?s2 = "record_successful_run e (slot_time now slot) ty (populate_today_audits e s)"
  obtain evs3 where e3: "trace (catch_up_loop e ty now rest ?s2) = trace ?s2 @ evs3"
      "count_invoked evs3 = length rest" "recorded_slots ty evs3 = rest"
    using Cons.IH[OF Cons.prems, of ?s2] by blast
  have "trace (catch_up_loop e ty now (slot # rest) s)
          = trace s @ (evs1 @ [EvRecordRun ty (fst slot) (snd slot)] @ evs3)"
    using e1(1) e3(1) by (simp add: slot_time_def)
  moreover have "count_invoked (evs1 @ [EvRecordRun ty (fst slot) (snd slot)] @ evs3)
                   = length (slot # rest)"
    using e1(2) e3(2) by simp
  moreover have "recorded_slots ty (evs1 @ [EvRecordRun ty (fst slot) (snd slot)] @ evs3)
                   = slot # rest"
    using e1(3) e3(3) by simp
  ultimately show ?case by blast
qed

lemma retry_event_not_download: "is_retry_event ev \<Longrightarrow> \<not> is_download ev"
  by (cases ev) simp_all

lemma ingest_event_not_download: "is_ingest_event ev \<Longrightarrow> \<not> is_download ev"
  by (cases ev) simp_all

lemma filter_download_retry_events [simp]: "filter is_download (retry_events e c f) = []"
  by (auto simp: filter_empty_conv dest!: retry_events_are_retry retry_event_not_download)

lemma filter_download_ingest_csvs [simp]: "filter is_download (ingest_csvs e ai cs) = []"
  by (auto simp: filter_empty_conv dest!: ingest_csvs_events ingest_event_not_download)

lemma filter_download_ingest_one [simp]: "filter is_download (ingest_one e ai c) = []"
  by (simp add: ingest_one_def split: option.splits)

lemma count_invoked_ingest_one [simp]: "count_invoked (ingest_one e ai c) = 0"
  by (simp add: ingest_one_def split: option.splits)

lemma example_candidates: "csv_candidates [example_csv] = [example_csv]"
  by (simp add: csv_candidates_def example_csv_def path_name_def)

lemma example_missed_runs:
  "missed_runs example_env (now_pst example_env) initial_state = [(16, 0), (20, 0)]"
  by (simp add: missed_runs_def expected_runs_def past_slot_def check_run_status_def
        has_recent_successful_run_def matching_runs_def example_env_def initial_state_def)

lemma example_run_completes:
  "fst (populate_run example_env (Some ''2025-07-27'') True initial_state) = EndedCompleted"
  by (simp add: populate_run_def populate_body_def Let_def log_event_def example_candidates
        example_env_def initial_state_def)

lemma retry_event_not_debounced: "is_retry_event ev \<Longrightarrow> ev \<noteq> EvDebounced"
  by (cases ev) simp_all

lemma debounced_not_in_retry_events [simp]: "EvDebounced \<notin> set (retry_events e c f)"
  using retry_events_are_retry retry_event_not_debounced by blast

lemma smart_retry_step_evaluates: "EvEvaluate p \<in> set (snd (smart_retry_step e t p st))"
  by (simp add: smart_retry_step_def Let_def)

lemma smart_retry_loop_evaluates:
  "p \<in> set ps \<Longrightarrow> EvEvaluate p \<in> set (snd (smart_retry_loop e t ps st f))"
proof (induction ps arbitrary: st f)
  case Nil
  then show ?case by simp
next
  case (Cons q ps)
  show ?case
  proof (cases "p = q")
    case True
    then show ?thesis
      unfolding smart_retry_loop_Cons using smart_retry_step_evaluates by simp
  next
    case False
    with Cons.prems have "p \<in> set ps" by simp
    from Cons.IH[OF this] show ?thesis
      unfolding smart_retry_loop_Cons by simp
  qed
qed

lemma retry_events_evaluates: "p \<in> set c \<Longrightarrow> EvEvaluate p \<in> set (retry_events e c f)"
  unfolding retry_events_def by (rule smart_retry_loop_evaluates)

lemma set_ai_state_lastError_given:
  "lastError_of (set_ai_state k r c (Some v) s) k = Some v"
  by (auto simp: lastError_of_def set_ai_state_def get_ai_state_def Let_def
        split: option.splits)

lemma populate_block:
  "ty \<noteq> ''scheduled'' \<Longrightarrow>
   \<exists>evs. trace (populate_audits_for_date e d ai s) = trace s @ evs \<and> is_invocation ty evs"
  unfolding populate_audits_for_date_def populate_run_def populate_body_def
  by (auto simp: Let_def log_event_def is_invocation_def split: if_splits outcome.splits)

lemma catch_up_loop_rounds:
  "ty \<noteq> ''scheduled'' \<Longrightarrow>
   \<exists>blocks. length blocks = length missed \<and>
     trace (catch_up_loop e ty now missed s) = trace s @ catch_up_rounds ty missed blocks \<and>
     (\<forall>evs \<in> set blocks. is_invocation ty evs)"
proof (induction missed arbitrary: s)
  case Nil
  have "length ([] :: event list list) = length ([] :: (nat \<times> nat) list) \<and>
        trace (catch_up_loop e ty now [] s) = trace s @ catch_up_rounds ty [] [] \<and>
        (\<forall>evs \<in> set ([] :: event list list). is_invocation ty evs)"
    by (simp add: catch_up_rounds_def)
  then show ?case by blast
next
  case (Cons slot rest)
  obtain evs1 where e1: "trace (populate_today_audits e s) = trace s @ evs1"
      "is_invocation ty evs1"
    using populate_block[OF Cons.prems, of e None True s]
    unfolding populate_today_audits_def by blast
  let ?s2 = "record_successful_run e (slot_time now slot) ty (populate_today_audits e s)"
  obtain blocks where b: "length blocks = length rest"
      "trace (catch_up_loop e ty now rest ?s2) = trace ?s2 @ catch_up_rounds ty rest blocks"
      "\<forall>evs \<in> set blocks. is_invocation ty evs"
    using Cons.IH[OF Cons.prems, of ?s2] by blast
  have "length (evs1 # blocks) = length (slot # rest)"
    using b(1) by simp
  moreover have "trace (catch_up_loop e ty now (slot # rest) s)
                   = trace s @ catch_up_rounds ty (slot # rest) (evs1 # blocks)"
    using e1(1) b(2) by (simp add: catch_up_rounds_def slot_time_def)
  moreover have "\<forall>evs \<in> set (evs1 # blocks). is_invocation ty evs"
    using e1(2) b(3) by simp
  ultimately show ?case by blast
qed

lemma check_and_catch_up_is_loop:
  "check_and_catch_up_missed_runs e s
     = catch_up_loop e ''catchup'' (now_pst e) (missed_runs e (now_pst e) s) s"
  by (simp add: check_and_catch_up_missed_runs_def Let_def)

lemma manual_catch_up_is_loop:
  "snd (manual_catch_up_runs e s)
     = catch_up_loop e ''manual_catchup'' (now_pst e) (missed_runs e (now_pst e) s) s"
  by (simp add: manual_catch_up_runs_def Let_def)

lemma example_download_fails:
  "fst (populate_run failing_download_env (Some ''2025-07-27'') True initial_state)
     = EndedFailed DownloadError"
  by (simp add: populate_run_def populate_body_def Let_def log_event_def
        failing_download_env_def example_env_def initial_state_def)

lemma completed_run_trace:
  assumes "\<not> job_lock s" and "populate_run e date_str run_ai s = (EndedCompleted, s')"
    and "rglob_csv e = Returns found"
  shows "new_events s s' =
      ([EvInvoked, EvSetProp (propagation_key date_str) (Some True) None,
        EvDownload (download_arg date_str), EvExtract]
       @ ingest_csvs e run_ai (csv_candidates found)
       @ [EvVerifyCounts, EvVerifySample, EvVerifySample])
      @ [EvRecordRun ''scheduled'' (t_hour (now_pst e)) (t_minute (now_pst e))]
      @ ((if run_ai then retry_events e (csv_candidates found) (ai_retry_state s) else [])
         @ [EvSetProp (propagation_key date_str) (Some False) (Some False)]) \<and>
    (\<forall>ev \<in> set (ingest_csvs e run_ai (csv_candidates found)).
        is_ingest_event ev \<and> \<not> is_retry_event ev) \<and>
    (\<forall>ev \<in> set (retry_events e (csv_candidates found) (ai_retry_state s)).
        is_retry_event ev \<and> \<not> is_ingest_event ev) \<and>
    run_tracking s' = run_tracking s"
proof -
  have ev: "new_events s s' =
      ([EvInvoked, EvSetProp (propagation_key date_str) (Some True) None,
        EvDownload (download_arg date_str), EvExtract]
       @ ingest_csvs e run_ai (csv_candidates found)
       @ [EvVerifyCounts, EvVerifySample, EvVerifySample])
      @ [EvRecordRun ''scheduled'' (t_hour (now_pst e)) (t_minute (now_pst e))]
      @ ((if run_ai then retry_events e (csv_candidates found) (ai_retry_state s) else [])
         @ [EvSetProp (propagation_key date_str) (Some False) (Some False)])"
    using assms unfolding populate_run_def populate_body_def
    by (auto simp: Let_def log_event_def new_events_def
          split: if_splits outcome.splits)
  have led: "run_tracking s' = run_tracking s"
    using assms unfolding populate_run_def populate_body_def
    by (auto simp: Let_def log_event_def split: if_splits outcome.splits)
  show ?thesis
    using ev led ingest_csvs_events retry_events_are_retry retry_event_not_ingest by blast
qed

subsection \<open>Defaults of the state store\<close>

text \<open>
  \<open>get_propagation_state\<close> on a key never written returns the default and leaves the
  dictionary without an entry for the key.
\<close>

theorem get_propagation_state_no_entry_counterexample:
  "fst (get_propagation_state (Some ''2025-07-27'') initial_state)
     = \<lparr>running = False, noData = False\<rparr> \<and>
   date_propagation_state (snd (get_propagation_state (Some ''2025-07-27'') initial_state))
     ''2025-07-27'' = None"
  by (simp add: get_propagation_state_def initial_state_def propagation_key_def
        default_propagation_state_def)

text \<open>
  Claim C7, as the code has it: for a date key never written, \<open>get_propagation_state\<close>
  returns the default \<open>{running: False, noData: False}\<close> and leaves the state as it was
  (it creates no entry); \<open>get_ai_state\<close> returns the default
  \<open>{running: False, completedAt: None, lastError: None, coverage: {total: 0, withPan: 0}}\<close>
  and stores it under the key.
\<close>

theorem state_store_defaults:
  "(date_propagation_state s (propagation_key d) = None \<longrightarrow>
      get_propagation_state d s = (\<lparr>running = False, noData = False\<rparr>, s)) \<and>
   (ai_state s k = None \<longrightarrow>
      fst (get_ai_state k s) =
        \<lparr>ai_running = False, completedAt = None, lastError = None,
         coverage = \<lparr>total = 0, withPan = 0\<rparr>\<rparr> \<and>
      snd (get_ai_state k s) =
        s\<lparr>ai_state := (ai_state s)(k \<mapsto>
            \<lparr>ai_running = False, completedAt = None, lastError = None,
             coverage = \<lparr>total = 0, withPan = 0\<rparr>\<rparr>)\<rparr>)"
  by (simp add: get_propagation_state_def get_ai_state_def default_propagation_state_def
        default_ai_state_def)

text \<open>The statement at the concrete day.\<close>

theorem state_store_defaults_witness:
  "get_propagation_state (Some ''2025-07-27'') initial_state
     = (\<lparr>running = False, noData = False\<rparr>, initial_state) \<and>
   fst (get_ai_state ''2025-07-27'' initial_state) =
     \<lparr>ai_running = False, completedAt = None, lastError = None,
      coverage = \<lparr>total = 0, withPan = 0\<rparr>\<rparr> \<and>
   ai_state (snd (get_ai_state ''2025-07-27'' initial_state)) ''2025-07-27'' =
     Some \<lparr>ai_running = False, completedAt = None, lastError = None,
           coverage = \<lparr>total = 0, withPan = 0\<rparr>\<rparr>"
  using state_store_defaults [of initial_state "Some ''2025-07-27''" "''2025-07-27''"]
  by (simp add: initial_state_def propagation_key_def)

subsection \<open>AI state fields\<close>

text \<open>
  The route passes \<open>lastError=""\<close> when a run starts: after a failed run recorded
  \<open>boom\<close>, the next successful run leaves the empty string.
\<close>

theorem lastError_overwritten_counterexample:
  "lastError_of (pan_ai_run ''2025-07-27'' (Inl ''boom'') initial_state) ''2025-07-27''
     = Some ''boom'' \<and>
   lastError_of (pan_ai_run ''2025-07-27'' (Inr ''2025-07-28T00:10:00'')
                   (pan_ai_run ''2025-07-27'' (Inl ''boom'') initial_state)) ''2025-07-27''
     = Some []"
  by (simp add: lastError_of_def pan_ai_run_def set_ai_state_def get_ai_state_def Let_def
        initial_state_def default_ai_state_def)

text \<open>
  Claim C10, as the code has it: \<open>None\<close> means that a field is not provided, so once
  \<open>completedAt\<close> or \<open>lastError\<close> of a date holds a value, no sequence of calls of
  \<open>set_ai_state\<close> makes it \<open>None\<close> again, and a call that omits \<open>lastError\<close> leaves it
  as it is; a call that passes a string stores that string in place of the one before.
\<close>

theorem set_ai_state_never_resets_to_null:
  "(completedAt_of s k \<noteq> None \<longrightarrow> completedAt_of (run_set_ai_calls cs s) k \<noteq> None) \<and>
   (lastError_of s k \<noteq> None \<longrightarrow> lastError_of (run_set_ai_calls cs s) k \<noteq> None) \<and>
   lastError_of (set_ai_state d r c None s) k = lastError_of s k \<and>
   lastError_of (set_ai_state k r c (Some v) s) k = Some v"
  using run_set_ai_calls_completedAt run_set_ai_calls_lastError set_ai_state_lastError_omitted
    set_ai_state_lastError_given
  by blast

text \<open>The statement at the concrete day.\<close>

theorem set_ai_state_never_resets_to_null_witness:
  "lastError_of (set_ai_state ''2025-07-27'' None None (Some ''boom'') initial_state)
      ''2025-07-27'' = Some ''boom'' \<and>
   lastError_of
     (run_set_ai_calls
        [\<lparr>c_date = ''2025-07-27'', c_running = Some False,
          c_completedAt = Some ''2025-07-28T00:10:00'', c_lastError = None\<rparr>]
        (set_ai_state ''2025-07-27'' None None (Some ''boom'') initial_state))
      ''2025-07-27'' \<noteq> None"
proof -
  have h: "lastError_of (set_ai_state ''2025-07-27'' None None (Some ''boom'') initial_state)
      ''2025-07-27'' = Some ''boom''"
    by (simp add: lastError_of_def set_ai_state_def get_ai_state_def Let_def
          initial_state_def default_ai_state_def)
  then have "lastError_of (set_ai_state ''2025-07-27'' None None (Some ''boom'') initial_state)
      ''2025-07-27'' \<noteq> None" by simp
  with set_ai_state_never_resets_to_null
         [of "set_ai_state ''2025-07-27'' None None (Some ''boom'') initial_state"
             "''2025-07-27''"
             "[\<lparr>c_date = ''2025-07-27'', c_running = Some False,
                c_completedAt = Some ''2025-07-28T00:10:00'', c_lastError = None\<rparr>]"]
       h
  show ?thesis by blast
qed

subsection \<open>Propagation state machine\<close>

text \<open>
  The path set-up, the lazy imports and \<open>load_config\<close> stand before the call that marks the
  state running.  When they raise, the invocation goes from idle to failed and the state is
  never running: its only write is \<open>running := False\<close>.
\<close>

theorem setup_failure_skips_running_counterexample:
  "\<not> job_lock initial_state \<and>
   fst (populate_run broken_setup_env (Some ''2025-07-27'') True initial_state)
     = EndedFailed SetupError \<and>
   new_events initial_state
     (snd (populate_run broken_setup_env (Some ''2025-07-27'') True initial_state))
     = [EvInvoked, EvJobFailed, EvSetProp ''2025-07-27'' (Some False) None] \<and>
   prop_writes ''2025-07-27''
     (new_events initial_state
        (snd (populate_run broken_setup_env (Some ''2025-07-27'') True initial_state)))
     = [(Some False, None)]"
  by (simp add: populate_run_def populate_body_def Let_def log_event_def new_events_def
        propagation_key_def broken_setup_env_def example_env_def initial_state_def)

text \<open>
  Claim C3, as the code has it: an invocation that finds the job lock free ends in exactly
  one of no-data, completed or failed.  Ending in no-data leaves
  \<open>running = False, noData = True\<close>, ending completed leaves
  \<open>running = False, noData = False\<close>, and a failure leaves \<open>running = False\<close> with
  \<open>noData\<close> as it was before the invocation.  The state follows idle, running, end: the
  writes are \<open>running := True\<close> followed by the one terminal write, except for a failure of
  the set-up, which goes from idle to failed with the terminal write alone.
\<close>

theorem propagation_state_machine:
  assumes "\<not> job_lock s" and "populate_run e date_str run_ai s = (r, s')"
  shows "r \<noteq> Skipped \<and>
    (r = EndedNoData \<longrightarrow>
       date_propagation_state s' (propagation_key date_str)
         = Some \<lparr>running = False, noData = True\<rparr> \<and>
       prop_writes (propagation_key date_str) (new_events s s')
         = [(Some True, None), (Some False, Some True)]) \<and>
    (r = EndedCompleted \<longrightarrow>
       date_propagation_state s' (propagation_key date_str)
         = Some \<lparr>running = False, noData = False\<rparr> \<and>
       prop_writes (propagation_key date_str) (new_events s s')
         = [(Some True, None), (Some False, Some False)]) \<and>
    (\<forall>err. r = EndedFailed err \<longrightarrow>
       (\<exists>st. date_propagation_state s' (propagation_key date_str) = Some st \<and>
             \<not> running st \<and> noData st = noData (fst (get_propagation_state date_str s))) \<and>
       prop_writes (propagation_key date_str) (new_events s s')
         = (if err = SetupError then [(Some False, None)]
            else [(Some True, None), (Some False, None)]))"
  using assms
  unfolding populate_run_def populate_body_def
  by (auto simp: Let_def log_event_def new_events_def set_propagation_state_def
        get_propagation_state_def default_propagation_state_def
        split: if_splits outcome.splits option.splits)

text \<open>The statement at the concrete day.\<close>

theorem propagation_state_machine_witness:
  "\<not> job_lock initial_state \<and>
   fst (populate_run example_env (Some ''2025-07-27'') True initial_state) = EndedCompleted \<and>
   date_propagation_state
     (snd (populate_run example_env (Some ''2025-07-27'') True initial_state)) ''2025-07-27''
     = Some \<lparr>running = False, noData = False\<rparr> \<and>
   fst (populate_run failing_download_env (Some ''2025-07-27'') True initial_state)
     = EndedFailed DownloadError \<and>
   prop_writes ''2025-07-27''
     (new_events initial_state
        (snd (populate_run failing_download_env (Some ''2025-07-27'') True initial_state)))
     = [(Some True, None), (Some False, None)]"
proof -
  have g2: "populate_run failing_download_env (Some ''2025-07-27'') True initial_state
      = (fst (populate_run failing_download_env (Some ''2025-07-27'') True initial_state),
         snd (populate_run failing_download_env (Some ''2025-07-27'') True initial_state))"
    by simp
  have h1: "\<not> job_lock initial_state" by (simp add: initial_state_def)
  have h2: "populate_run example_env (Some ''2025-07-27'') True initial_state
      = (fst (populate_run example_env (Some ''2025-07-27'') True initial_state),
         snd (populate_run example_env (Some ''2025-07-27'') True initial_state))"
    by simp
  from propagation_state_machine[OF h1 h2] propagation_state_machine[OF h1 g2]
    example_run_completes example_download_fails h1
  show ?thesis by (simp add: propagation_key_def)
qed

subsection \<open>No-data short circuit\<close>

text \<open>
  Claim C4: when the download reports that no files were found, the invocation makes no
  ingestion call (its calls are the download alone, between the two state writes), the
  propagation state of the date ends with \<open>noData = True\<close> and \<open>running = False\<close>, and the
  invocation returns early with the lock released.
\<close>

theorem no_data_short_circuit:
  assumes "\<not> job_lock s" and "setup_ok e"
    and "start_download e (download_arg date_str) = Returns False"
  shows "fst (populate_run e date_str run_ai s) = EndedNoData \<and>
     new_events s (populate_audits_for_date e date_str run_ai s) =
       [EvInvoked, EvSetProp (propagation_key date_str) (Some True) None,
        EvDownload (download_arg date_str),
        EvSetProp (propagation_key date_str) (Some False) (Some True)] \<and>
     (\<forall>p. EvIngest p \<notin> set (new_events s (populate_audits_for_date e date_str run_ai s))) \<and>
     date_propagation_state (populate_audits_for_date e date_str run_ai s)
       (propagation_key date_str) = Some \<lparr>running = False, noData = True\<rparr> \<and>
     \<not> job_lock (populate_audits_for_date e date_str run_ai s)"
  using assms
  by (simp add: populate_audits_for_date_def populate_run_def populate_body_def Let_def
        log_event_def new_events_def set_propagation_state_def default_propagation_state_def
        split: option.splits)

text \<open>The statement at the concrete day.\<close>

theorem no_data_short_circuit_witness:
  "\<not> job_lock initial_state \<and> setup_ok no_data_env \<and>
   start_download no_data_env (download_arg (Some ''2025-07-27'')) = Returns False \<and>
   new_events initial_state
     (populate_audits_for_date no_data_env (Some ''2025-07-27'') True initial_state) =
     [EvInvoked, EvSetProp ''2025-07-27'' (Some True) None, EvDownload (Some ''2025-07-27''),
      EvSetProp ''2025-07-27'' (Some False) (Some True)] \<and>
   date_propagation_state
     (populate_audits_for_date no_data_env (Some ''2025-07-27'') True initial_state)
     ''2025-07-27'' = Some \<lparr>running = False, noData = True\<rparr>"
proof -
  have h1: "\<not> job_lock initial_state" by (simp add: initial_state_def)
  have h2: "setup_ok no_data_env" by (simp add: no_data_env_def example_env_def)
  have h3: "start_download no_data_env (download_arg (Some ''2025-07-27'')) = Returns False"
    by (simp add: no_data_env_def example_env_def)
  from no_data_short_circuit[OF h1 h2 h3, where run_ai = True] h1 h2 h3
  show ?thesis by (simp add: propagation_key_def download_arg_def)
qed

subsection \<open>Ordering within a run\<close>

text \<open>
  Claim C8: within a successful run the ledger record is written only after every source
  is ingested and verified, and the smart retry evaluates sources only after that write.
  The code calls \<open>_record_successful_run\<close> at that place, but the call never writes: on
  the concrete evening, with the configuration readable and the table accepting writes, the
  run completes, the recording was called, the ledger is as empty as before, and the smart
  retry evaluated the source.
\<close>

theorem completed_run_leaves_ledger_unwritten:
  "config_ok example_env \<and> put_item_ok example_env \<and>
   fst (populate_run example_env (Some ''2025-07-27'') True initial_state) = EndedCompleted \<and>
   EvRecordRun ''scheduled'' 21 0 \<in>
     set (new_events initial_state
            (snd (populate_run example_env (Some ''2025-07-27'') True initial_state))) \<and>
   run_tracking (snd (populate_run example_env (Some ''2025-07-27'') True initial_state))
     = [] \<and>
   EvEvaluate example_csv \<in>
     set (new_events initial_state
            (snd (populate_run example_env (Some ''2025-07-27'') True initial_state)))"
proof -
  have h1: "\<not> job_lock initial_state" by (simp add: initial_state_def)
  have h2: "populate_run example_env (Some ''2025-07-27'') True initial_state
      = (EndedCompleted,
         snd (populate_run example_env (Some ''2025-07-27'') True initial_state))"
    using example_run_completes by (metis prod.collapse)
  have h3: "rglob_csv example_env = Returns [example_csv]" by (simp add: example_env_def)
  have ev: "EvEvaluate example_csv \<in>
              set (retry_events example_env [example_csv] (ai_retry_state initial_state))"
    by (rule retry_events_evaluates) simp
  from completed_run_trace[OF h1 h2 h3] ev example_run_completes
  show ?thesis by (simp add: example_candidates example_env_def initial_state_def)
qed

subsection \<open>Retry budget and back-off\<close>



subsection \<open>Debounce of the UI trigger\<close>




subsection \<open>Catch-up\<close>

text \<open>
  Both loops over the missed slots call \<open>populate_today_audits\<close> in every round.  On the
  concrete evening both slots are missed, and one detection enters the population twice and
  downloads twice.
\<close>

theorem catch_up_populates_twice_counterexample:
  "missed_runs example_env (now_pst example_env) initial_state = [(16, 0), (20, 0)] \<and>
   count_invoked (new_events initial_state
      (check_and_catch_up_missed_runs example_env initial_state)) = 2 \<and>
   length (filter is_download (new_events initial_state
      (check_and_catch_up_missed_runs example_env initial_state))) = 2"
proof -
  have ev: "count_invoked (new_events initial_state
               (catch_up_loop example_env ''catchup'' (now_pst example_env)
                  [(16, 0), (20, 0)] initial_state)) = 2 \<and>
            length (filter is_download (new_events initial_state
               (catch_up_loop example_env ''catchup'' (now_pst example_env)
                  [(16, 0), (20, 0)] initial_state))) = 2"
    by (simp add: populate_today_audits_def populate_audits_for_date_def populate_run_def
          populate_body_def Let_def log_event_def example_candidates new_events_def
          slot_time_def example_env_def initial_state_def)
  then show ?thesis
    by (simp add: check_and_catch_up_missed_runs_def Let_def example_missed_runs)
qed

text \<open>
  Claim C2, as the code has it: for every set of missed slots the detector runs the
  population once per missed slot (not once for the day), and after each population it
  calls the recording of a run of type \<open>catchup\<close> for that slot: its calls are, slot by
  slot in the order of the slots, one whole invocation of the population followed by the
  recording call for the slot.  The manual trigger does the same with type
  \<open>manual_catchup\<close>.
\<close>

theorem catch_up_once_per_missed_slot:
  "count_invoked (new_events s (check_and_catch_up_missed_runs e s))
     = length (missed_runs e (now_pst e) s) \<and>
   recorded_slots ''catchup'' (new_events s (check_and_catch_up_missed_runs e s))
     = missed_runs e (now_pst e) s \<and>
   count_invoked (new_events s (snd (manual_catch_up_runs e s)))
     = length (missed_runs e (now_pst e) s) \<and>
   recorded_slots ''manual_catchup'' (new_events s (snd (manual_catch_up_runs e s)))
     = missed_runs e (now_pst e) s \<and>
   (\<exists>blocks. length blocks = length (missed_runs e (now_pst e) s) \<and>
      new_events s (check_and_catch_up_missed_runs e s)
        = catch_up_rounds ''catchup'' (missed_runs e (now_pst e) s) blocks \<and>
      (\<forall>evs \<in> set blocks. is_invocation ''catchup'' evs)) \<and>
   (\<exists>blocks. length blocks = length (missed_runs e (now_pst e) s) \<and>
      new_events s (snd (manual_catch_up_runs e s))
        = catch_up_rounds ''manual_catchup'' (missed_runs e (now_pst e) s) blocks \<and>
      (\<forall>evs \<in> set blocks. is_invocation ''manual_catchup'' evs))"
proof -
  obtain blocks where r: "length blocks = length (missed_runs e (now_pst e) s)"
      "trace (check_and_catch_up_missed_runs e s)
         = trace s @ catch_up_rounds ''catchup'' (missed_runs e (now_pst e) s) blocks"
      "\<forall>evs \<in> set blocks. is_invocation ''catchup'' evs"
    using catch_up_loop_rounds[of "''catchup''" "missed_runs e (now_pst e) s" e "now_pst e" s]
    unfolding check_and_catch_up_is_loop by auto
  obtain blocks' where r': "length blocks' = length (missed_runs e (now_pst e) s)"
      "trace (snd (manual_catch_up_runs e s))
         = trace s @ catch_up_rounds ''manual_catchup'' (missed_runs e (now_pst e) s) blocks'"
      "\<forall>evs \<in> set blocks'. is_invocation ''manual_catchup'' evs"
    using catch_up_loop_rounds[of "''manual_catchup''" "missed_runs e (now_pst e) s" e
            "now_pst e" s]
    unfolding manual_catch_up_is_loop by auto
  have ne: "new_events s (check_and_catch_up_missed_runs e s)
              = catch_up_rounds ''catchup'' (missed_runs e (now_pst e) s) blocks"
    using r(2) by (rule new_events_append)
  have ne': "new_events s (snd (manual_catch_up_runs e s))
              = catch_up_rounds ''manual_catchup'' (missed_runs e (now_pst e) s) blocks'"
    using r'(2) by (rule new_events_append)
  from r(1) ne r(3)
  have rounds1: "\<exists>blocks. length blocks = length (missed_runs e (now_pst e) s) \<and>
      new_events s (check_and_catch_up_missed_runs e s)
        = catch_up_rounds ''catchup'' (missed_runs e (now_pst e) s) blocks \<and>
      (\<forall>evs \<in> set blocks. is_invocation ''catchup'' evs)"
    by blast
  from r'(1) ne' r'(3)
  have rounds2: "\<exists>blocks. length blocks = length (missed_runs e (now_pst e) s) \<and>
      new_events s (snd (manual_catch_up_runs e s))
        = catch_up_rounds ''manual_catchup'' (missed_runs e (now_pst e) s) blocks \<and>
      (\<forall>evs \<in> set blocks. is_invocation ''manual_catchup'' evs)"
    by blast
  obtain evs where a: "trace (catch_up_loop e ''catchup'' (now_pst e)
                                (missed_runs e (now_pst e) s) s) = trace s @ evs"
      "count_invoked evs = length (missed_runs e (now_pst e) s)"
      "recorded_slots ''catchup'' evs = missed_runs e (now_pst e) s"
    using catch_up_loop_trace[of "''catchup''" e "now_pst e" "missed_runs e (now_pst e) s" s]
    by auto
  obtain evs' where b: "trace (catch_up_loop e ''manual_catchup'' (now_pst e)
                                (missed_runs e (now_pst e) s) s) = trace s @ evs'"
      "count_invoked evs' = length (missed_runs e (now_pst e) s)"
      "recorded_slots ''manual_catchup'' evs' = missed_runs e (now_pst e) s"
    using catch_up_loop_trace[of "''manual_catchup''" e "now_pst e"
            "missed_runs e (now_pst e) s" s]
    by auto
  have n: "new_events s s = []" by (simp add: new_events_def)
  have counts: "count_invoked (new_events s (check_and_catch_up_missed_runs e s))
     = length (missed_runs e (now_pst e) s) \<and>
   recorded_slots ''catchup'' (new_events s (check_and_catch_up_missed_runs e s))
     = missed_runs e (now_pst e) s \<and>
   count_invoked (new_events s (snd (manual_catch_up_runs e s)))
     = length (missed_runs e (now_pst e) s) \<and>
   recorded_slots ''manual_catchup'' (new_events s (snd (manual_catch_up_runs e s)))
     = missed_runs e (now_pst e) s"
    using a b n
    by (auto simp: check_and_catch_up_missed_runs_def manual_catch_up_runs_def Let_def)
  from counts rounds1 rounds2 show ?thesis by (intro conjI) simp_all
qed

text \<open>The statement at the concrete day.\<close>

theorem catch_up_once_per_missed_slot_witness:
  "count_invoked (new_events initial_state
      (check_and_catch_up_missed_runs example_env initial_state)) = 2 \<and>
   recorded_slots ''catchup'' (new_events initial_state
      (check_and_catch_up_missed_runs example_env initial_state)) = [(16, 0), (20, 0)]"
  using catch_up_once_per_missed_slot[of initial_state example_env] example_missed_runs
  by simp

subsection \<open>Status checks under failure\<close>




end
